theory Spec2Isabelle
  imports Main "HOL-Library.AList" "HOL-Library.Sublist"
begin

section \<open>JavaScript values\<close>

text \<open>
  The request body, the summaries and the synthesized object are untyped at run time
  (\<^verbatim>\<open>req.body\<close> is \<^verbatim>\<open>any\<close>, the handler tests \<^verbatim>\<open>typeof summary\<close>), so they are
  modelled as JSON-like values. Numbers are integers here; \<^verbatim>\<open>NaN\<close> and fractions play
  no role in the handler.
\<close>

datatype jsval =
    JUndefined
  | JNull
  | JBool bool
  | JNum int
  | JStr string
  | JArr "jsval list"
  | JObj "(string \<times> jsval) list"

type_synonym jsobject = "(string \<times> jsval) list"

text \<open>The truthiness test behind \<^verbatim>\<open>!url\<close>.\<close>

fun truthy :: "jsval \<Rightarrow> bool" where
  "truthy JUndefined = False"
| "truthy JNull = False"
| "truthy (JBool b) = b"
| "truthy (JNum n) = (n \<noteq> 0)"
| "truthy (JStr s) = (s \<noteq> [])"
| "truthy (JArr vs) = True"
| "truthy (JObj fs) = True"

text \<open>Reading a property that is absent gives \<^verbatim>\<open>undefined\<close>.\<close>

definition get_prop :: "jsobject \<Rightarrow> string \<Rightarrow> jsval" where
  "get_prop obj k = (case map_of obj k of None \<Rightarrow> JUndefined | Some v \<Rightarrow> v)"

text \<open>
  Assigning a property replaces the value in place when the key exists and appends the
  key otherwise.
\<close>

definition set_prop :: "jsobject \<Rightarrow> string \<Rightarrow> jsval \<Rightarrow> jsobject" where
  "set_prop obj k v = AList.update k v obj"

section \<open>Promises\<close>

text \<open>
  A thrown value is an \<^verbatim>\<open>Error\<close> instance carrying its message, or any other value.
  An awaited call either resolves with a value or rejects with a thrown value.
\<close>

datatype thrown = ErrorObj string | NonError jsval

datatype 'a outcome = Resolved 'a | Rejected thrown

text \<open>
  \<^verbatim>\<open>Promise.all\<close> resolves with the values in the order of its input once every
  promise has resolved, and rejects with the reason of the promise that rejects first
  in time. The order in which the promises settle is the schedule: the indices listed
  in \<open>sched\<close> settle first, in that order, the others afterwards in index order (an index
  out of range or listed again has no effect).
\<close>

definition settle_order :: "nat list \<Rightarrow> nat \<Rightarrow> nat list" where
  "settle_order sched n = filter (\<lambda>i. i < n) sched @ [0..<n]"

fun first_rejection :: "'a outcome list \<Rightarrow> thrown option" where
  "first_rejection [] = None"
| "first_rejection (Rejected e # ps) = Some e"
| "first_rejection (Resolved v # ps) = first_rejection ps"

fun resolved_values :: "'a outcome list \<Rightarrow> 'a list" where
  "resolved_values [] = []"
| "resolved_values (Resolved v # ps) = v # resolved_values ps"
| "resolved_values (Rejected e # ps) = resolved_values ps"

definition Promise_all :: "nat list \<Rightarrow> 'a outcome list \<Rightarrow> 'a list outcome" where
  "Promise_all sched ps =
     (case first_rejection (map (\<lambda>i. ps ! i) (settle_order sched (length ps))) of
        Some e \<Rightarrow> Rejected e
      | None \<Rightarrow> Resolved (resolved_values ps))"

section \<open>Collaborators\<close>

text \<open>
  The functions imported from \<^verbatim>\<open>./lib/functions\<close> and \<^verbatim>\<open>generateObject\<close> are
  parameters of the handler: each call resolves or rejects, as the collaborator decides.
  The search results are never inspected by the handler, so their type is a parameter
  too. \<^verbatim>\<open>scrapeUrl\<close> may return nothing (\<open>None\<close>); a page whose content is absent is
  as falsy to the handler as one whose content is the empty string, and both are the
  empty \<open>content\<close> here. The OpenAI client passed to \<^verbatim>\<open>selectBestImageWithVision\<close>
  is a constant of the module and is left out of the call, and so are the model and the
  schema passed to \<^verbatim>\<open>generateObject\<close>. The request body is an object, as
  \<^verbatim>\<open>express.json()\<close> supplies it. Logging to the console is not modelled.
\<close>

record SourceDocument =
  source_url :: string
  content :: string

record 'r SearchResponse =
  searchResults :: "'r list"

record ScrapedBatch =
  contents :: "SourceDocument list"
  images :: "string list"

record 'r collaborators =
  scrapeUrl :: "jsval \<Rightarrow> SourceDocument option outcome"
  cleanContent :: "string \<Rightarrow> string outcome"
  getProductName :: "string \<Rightarrow> string outcome"
  searchGoogle :: "string \<Rightarrow> 'r SearchResponse outcome"
  scrapeSearchResults :: "'r list \<Rightarrow> string \<Rightarrow> ScrapedBatch outcome"
  selectBestImageWithVision :: "string list \<Rightarrow> string \<Rightarrow> jsval outcome"
  summarizeContent :: "string \<Rightarrow> jsval outcome"
  languageModel :: "string \<Rightarrow> jsobject outcome"
  schemaMismatch :: thrown

text \<open>
  Modelled from the spec: \<^verbatim>\<open>ProductSchema\<close> (declared in \<^verbatim>\<open>./lib/functions\<close>) and
  the validation that \<^verbatim>\<open>generateObject\<close> performs against it. The record has a string
  \<open>name\<close> and \<open>description\<close>, \<open>whereToBuy\<close> entries with retailer, country, price and
  url, \<open>specifications\<close> as label/value pairs and \<open>faq\<close> entries with question and
  answer; the synthesizer returns a schema-conformant object or fails. Here
  \<open>languageModel\<close> is the object the model answers with for a prompt, and
  \<open>schemaMismatch\<close> is what \<^verbatim>\<open>generateObject\<close> throws when that object does not
  conform.
\<close>

definition is_string :: "jsval \<Rightarrow> bool" where
  "is_string v = (case v of JStr s \<Rightarrow> True | _ \<Rightarrow> False)"

definition has_props :: "string list \<Rightarrow> jsval \<Rightarrow> bool" where
  "has_props ks v =
     (case v of JObj fs \<Rightarrow> list_all (\<lambda>k. map_of fs k \<noteq> None) ks | _ \<Rightarrow> False)"

definition array_of :: "(jsval \<Rightarrow> bool) \<Rightarrow> jsval \<Rightarrow> bool" where
  "array_of P v = (case v of JArr vs \<Rightarrow> list_all P vs | _ \<Rightarrow> False)"

definition ProductSchema :: "jsobject \<Rightarrow> bool" where
  "ProductSchema obj \<longleftrightarrow>
     is_string (get_prop obj ''name'') \<and>
     is_string (get_prop obj ''description'') \<and>
     array_of (has_props [''retailer'', ''country'', ''price'', ''url''])
       (get_prop obj ''whereToBuy'') \<and>
     array_of (has_props [''label'', ''value'']) (get_prop obj ''specifications'') \<and>
     array_of (has_props [''question'', ''answer'']) (get_prop obj ''faq'')"

definition generateObject ::
  "(jsobject \<Rightarrow> bool) \<Rightarrow> 'r collaborators \<Rightarrow> string \<Rightarrow> jsobject outcome" where
  "generateObject schema cs prompt =
     (case languageModel cs prompt of
        Rejected e \<Rightarrow> Rejected e
      | Resolved obj \<Rightarrow> if schema obj then Resolved obj else Rejected (schemaMismatch cs))"

section \<open>Effects of the handler\<close>

text \<open>
  What a run of the handler leaves behind: the collaborator calls it made, in order,
  and the responses it sent.
\<close>

datatype 'r call =
    CallScrapeUrl jsval
  | CallCleanContent string
  | CallGetProductName string
  | CallSearchGoogle string
  | CallScrapeSearchResults "'r list" string
  | CallSelectBestImageWithVision "string list" string
  | CallSummarizeContent string
  | CallGenerateObject string

datatype response = Response nat jsval

record 'r trace =
  calls :: "'r call list"
  responses :: "response list"

text \<open>
  A statement completes normally with a value, throws, or executes \<^verbatim>\<open>return\<close>.
\<close>

datatype 'a completion = Normal 'a | Throw thrown | Return

type_synonym ('r, 'a) io = "'r trace \<Rightarrow> 'a completion \<times> 'r trace"

definition andThen :: "('r, 'a) io \<Rightarrow> ('a \<Rightarrow> ('r, 'b) io) \<Rightarrow> ('r, 'b) io" where
  "andThen m f t =
     (case m t of
        (Normal v, t') \<Rightarrow> f v t'
      | (Throw e, t') \<Rightarrow> (Throw e, t')
      | (Return, t') \<Rightarrow> (Return, t'))"

definition await :: "'r call \<Rightarrow> 'a outcome \<Rightarrow> ('r, 'a) io" where
  "await c p t =
     ((case p of Resolved v \<Rightarrow> Normal v | Rejected e \<Rightarrow> Throw e),
      t\<lparr>calls := calls t @ [c]\<rparr>)"

definition throw :: "thrown \<Rightarrow> ('r, 'a) io" where
  "throw e t = (Throw e, t)"

definition return_stmt :: "('r, 'a) io" where
  "return_stmt t = (Return, t)"

definition json :: "nat \<Rightarrow> jsval \<Rightarrow> ('r, unit) io" where
  "json status body t = (Normal (), t\<lparr>responses := responses t @ [Response status body]\<rparr>)"

section \<open>The request handler of \<^verbatim>\<open>POST /api/product-scraper\<close>\<close>

text \<open>
  \<^verbatim>\<open>contents.map((result) => summarizeContent(result.content))\<close> starts every call, in
  the order of \<open>contents\<close>; \<^verbatim>\<open>await Promise.all\<close> then waits for them.
\<close>

definition summarize_all ::
  "'r collaborators \<Rightarrow> nat list \<Rightarrow> SourceDocument list \<Rightarrow> ('r, jsval list) io" where
  "summarize_all cs sched docs t =
     ((case Promise_all sched (map (\<lambda>result. summarizeContent cs (content result)) docs) of
         Resolved vs \<Rightarrow> Normal vs
       | Rejected e \<Rightarrow> Throw e),
      t\<lparr>calls := calls t @ map (\<lambda>result. CallSummarizeContent (content result)) docs\<rparr>)"

text \<open>
  \<^verbatim>\<open>.filter((summary) => typeof summary === "string" && summary.length > 0)\<close>: what is
  kept is a list of strings.
\<close>

fun nonempty_strings :: "jsval list \<Rightarrow> string list" where
  "nonempty_strings [] = []"
| "nonempty_strings (JStr s # vs) =
     (if length s > 0 then s # nonempty_strings vs else nonempty_strings vs)"
| "nonempty_strings (v # vs) = nonempty_strings vs"

text \<open>\<^verbatim>\<open>Array.prototype.join\<close> on strings.\<close>

fun join :: "string \<Rightarrow> string list \<Rightarrow> string" where
  "join sep [] = []"
| "join sep [x] = x"
| "join sep (x # y # ys) = x @ sep @ join sep (y # ys)"

definition combinedDetails :: "jsval list \<Rightarrow> string" where
  "combinedDetails summarizedContents =
     join ''\<newline>\<newline>'' (nonempty_strings summarizedContents)"

text \<open>The template literal passed as \<^verbatim>\<open>prompt\<close>.\<close>

definition prompt :: "string \<Rightarrow> string \<Rightarrow> string" where
  "prompt productName details = concat
     [''\<newline>'',
      ''        Generate comprehensive product information for '', productName, ''.\<newline>'',
      ''        Use this summarized content and specifications from multiple sources:\<newline>'',
      ''\<newline>'',
      ''        Content:\<newline>'',
      ''        '', details, ''\<newline>'',
      ''\<newline>'',
      ''        Generate a detailed response including:\<newline>'',
      ''        1. Product name and description.(Description should be a detailed description of the product)\<newline>'',
      ''        2. Ratings and reviews. (Should be related to the product)\<newline>'',
      ''        3. Where to buy information. (Include the retailer, country, price and url)\<newline>'',
      ''        4. Technical specifications as an array of label-value pairs\<newline>'',
      ''        5. Frequently asked questions. (Should be technical questions or related to the product specifications)\<newline>'',
      ''\<newline>'',
      ''        Important: Format specifications as an array of objects with label and value properties.\<newline>'',
      ''        Ensure all specifications are included and all information is factual.\<newline>'',
      ''      '']"

text \<open>The body of the \<^verbatim>\<open>try\<close> block.\<close>

definition try_body :: "'r collaborators \<Rightarrow> nat list \<Rightarrow> jsobject \<Rightarrow> ('r, unit) io" where
  "try_body cs sched body =
     (let url = get_prop body ''url'' in
      if \<not> truthy url then
        andThen (json 400 (JObj [(''error'', JStr ''URL is required'')])) (\<lambda>_. return_stmt)
      else
        andThen (await (CallScrapeUrl url) (scrapeUrl cs url)) (\<lambda>initialContent.
        case initialContent of
          None \<Rightarrow> throw (ErrorObj ''Failed to scrape initial URL'')
        | Some page \<Rightarrow>
            if content page = [] then throw (ErrorObj ''Failed to scrape initial URL'')
            else
        andThen (await (CallCleanContent (content page)) (cleanContent cs (content page)))
          (\<lambda>cleanedContent.
        andThen (await (CallGetProductName cleanedContent) (getProductName cs cleanedContent))
          (\<lambda>productName.
        andThen (await (CallSearchGoogle productName) (searchGoogle cs productName))
          (\<lambda>found.
        let limitedResults = take 7 (searchResults found) in
        andThen (await (CallScrapeSearchResults limitedResults productName)
                   (scrapeSearchResults cs limitedResults productName))
          (\<lambda>batch.
        andThen (await (CallSelectBestImageWithVision (images batch) productName)
                   (selectBestImageWithVision cs (images batch) productName))
          (\<lambda>bestImage.
        andThen (summarize_all cs sched (contents batch))
          (\<lambda>summarizedContents.
        let p = prompt productName (combinedDetails summarizedContents) in
        andThen (await (CallGenerateObject p) (generateObject ProductSchema cs p))
          (\<lambda>object.
        json 200 (JObj (set_prop object ''image'' bestImage)))))))))))"

text \<open>The \<^verbatim>\<open>catch\<close> block: \<^verbatim>\<open>error instanceof Error ? error.message : "Unknown error"\<close>.\<close>

definition error_details :: "thrown \<Rightarrow> string" where
  "error_details e = (case e of ErrorObj m \<Rightarrow> m | NonError v \<Rightarrow> ''Unknown error'')"

definition failure_response :: "thrown \<Rightarrow> response" where
  "failure_response e =
     Response 500 (JObj [(''error'', JStr ''Failed to scrape product information''),
                         (''details'', JStr (error_details e))])"

definition handler :: "'r collaborators \<Rightarrow> nat list \<Rightarrow> jsobject \<Rightarrow> 'r trace" where
  "handler cs sched body =
     (case try_body cs sched body \<lparr>calls = [], responses = []\<rparr> of
        (Throw e, t) \<Rightarrow> t\<lparr>responses := responses t @ [failure_response e]\<rparr>
      | (Normal u, t) \<Rightarrow> t
      | (Return, t) \<Rightarrow> t)"

section \<open>Stages reached by a request\<close>

text \<open>
  A request has come through the search when its \<open>url\<close> is truthy and extraction,
  cleaning, identification and search have each returned; the arguments name what they
  returned.
\<close>

definition reaches_search ::
  "'r collaborators \<Rightarrow> jsobject \<Rightarrow> SourceDocument \<Rightarrow> string \<Rightarrow> string \<Rightarrow> 'r list \<Rightarrow> bool" where
  "reaches_search cs body page cleaned name results \<longleftrightarrow>
     truthy (get_prop body ''url'') \<and>
     scrapeUrl cs (get_prop body ''url'') = Resolved (Some page) \<and>
     content page \<noteq> [] \<and>
     cleanContent cs (content page) = Resolved cleaned \<and>
     getProductName cs cleaned = Resolved name \<and>
     searchGoogle cs name = Resolved \<lparr>searchResults = results\<rparr>"

text \<open>It has come to the image selection when the scrape of the results has returned too.\<close>

definition reaches_selection ::
  "'r collaborators \<Rightarrow> jsobject \<Rightarrow> SourceDocument \<Rightarrow> string \<Rightarrow> string \<Rightarrow> 'r list \<Rightarrow>
   ScrapedBatch \<Rightarrow> bool" where
  "reaches_selection cs body page cleaned name results batch \<longleftrightarrow>
     reaches_search cs body page cleaned name results \<and>
     scrapeSearchResults cs (take 7 results) name = Resolved batch"

definition calls_through_search ::
  "jsobject \<Rightarrow> SourceDocument \<Rightarrow> string \<Rightarrow> string \<Rightarrow> 'r call list" where
  "calls_through_search body page cleaned name =
     [CallScrapeUrl (get_prop body ''url''), CallCleanContent (content page),
      CallGetProductName cleaned, CallSearchGoogle name]"

definition calls_through_selection ::
  "jsobject \<Rightarrow> SourceDocument \<Rightarrow> string \<Rightarrow> string \<Rightarrow> 'r list \<Rightarrow> ScrapedBatch \<Rightarrow> 'r call list" where
  "calls_through_selection body page cleaned name results batch =
     calls_through_search body page cleaned name @
     [CallScrapeSearchResults (take 7 results) name,
      CallSelectBestImageWithVision (images batch) name]"

definition summaries ::
  "'r collaborators \<Rightarrow> ScrapedBatch \<Rightarrow> jsval outcome list" where
  "summaries cs batch = map (\<lambda>result. summarizeContent cs (content result)) (contents batch)"

definition summarize_calls :: "ScrapedBatch \<Rightarrow> 'r call list" where
  "summarize_calls batch = map (\<lambda>result. CallSummarizeContent (content result)) (contents batch)"

section \<open>The scrape of the search results\<close>

text \<open>
  Modelled from the spec: \<^verbatim>\<open>scrapeSearchResults\<close> (declared in \<^verbatim>\<open>./lib/functions\<close>).
  It scrapes each retained result and collects two ordered collections, the contents
  scraped and the images found; a result whose scrape fails contributes nothing to
  either, and the batch itself does not fail.
\<close>

definition scrape_fanout ::
  "('r \<Rightarrow> string \<Rightarrow> (SourceDocument \<times> string list) outcome) \<Rightarrow> 'r list \<Rightarrow> string \<Rightarrow>
   ScrapedBatch outcome" where
  "scrape_fanout scrapeResult results name =
     (let scraped = resolved_values (map (\<lambda>r. scrapeResult r name) results)
      in Resolved \<lparr>contents = map fst scraped, images = concat (map snd scraped)\<rparr>)"

definition scrape_failed :: "'a outcome \<Rightarrow> bool" where
  "scrape_failed p = (case p of Rejected e \<Rightarrow> True | Resolved v \<Rightarrow> False)"

section \<open>Fatal failures\<close>

text \<open>
  Extraction fails when \<^verbatim>\<open>scrapeUrl\<close> throws, and when it returns nothing or a page
  without content, for which the handler itself throws.
\<close>

definition extraction_fails :: "'r collaborators \<Rightarrow> jsobject \<Rightarrow> thrown \<Rightarrow> bool" where
  "extraction_fails cs body e \<longleftrightarrow>
     truthy (get_prop body ''url'') \<and>
     (case scrapeUrl cs (get_prop body ''url'') of
        Rejected e' \<Rightarrow> e = e'
      | Resolved None \<Rightarrow> e = ErrorObj ''Failed to scrape initial URL''
      | Resolved (Some page) \<Rightarrow>
          content page = [] \<and> e = ErrorObj ''Failed to scrape initial URL'')"

definition identification_fails ::
  "'r collaborators \<Rightarrow> jsobject \<Rightarrow> SourceDocument \<Rightarrow> string \<Rightarrow> thrown \<Rightarrow> bool" where
  "identification_fails cs body page cleaned e \<longleftrightarrow>
     truthy (get_prop body ''url'') \<and>
     scrapeUrl cs (get_prop body ''url'') = Resolved (Some page) \<and>
     content page \<noteq> [] \<and>
     cleanContent cs (content page) = Resolved cleaned \<and>
     getProductName cs cleaned = Rejected e"

definition synthesis_fails ::
  "'r collaborators \<Rightarrow> nat list \<Rightarrow> jsobject \<Rightarrow> SourceDocument \<Rightarrow> string \<Rightarrow> string \<Rightarrow> 'r list \<Rightarrow>
   ScrapedBatch \<Rightarrow> jsval \<Rightarrow> jsval list \<Rightarrow> thrown \<Rightarrow> bool" where
  "synthesis_fails cs sched body page cleaned name results batch bestImage vs e \<longleftrightarrow>
     reaches_selection cs body page cleaned name results batch \<and>
     selectBestImageWithVision cs (images batch) name = Resolved bestImage \<and>
     Promise_all sched (summaries cs batch) = Resolved vs \<and>
     generateObject ProductSchema cs (prompt name (combinedDetails vs)) = Rejected e"

section \<open>The synthesis context in the spec's words\<close>

text \<open>
  The summaries that are non-empty strings are kept, in their order, and concatenated
  with a blank line between consecutive ones.
\<close>

definition surviving_summaries :: "jsval list \<Rightarrow> string list" where
  "surviving_summaries vs =
     concat (map (\<lambda>v. case v of JStr s \<Rightarrow> (if s = [] then [] else [s]) | _ \<Rightarrow> []) vs)"

fun blank_line_separated :: "string list \<Rightarrow> string" where
  "blank_line_separated [] = []"
| "blank_line_separated (s # ss) = s @ concat (map (\<lambda>x. ''\<newline>\<newline>'' @ x) ss)"

definition synthesis_context_spec :: "jsval list \<Rightarrow> string" where
  "synthesis_context_spec vs = blank_line_separated (surviving_summaries vs)"

section \<open>Projections of a response\<close>

text \<open>A response without the \<open>image\<close> property of its body.\<close>

definition without_image :: "response \<Rightarrow> response" where
  "without_image r =
     (case r of
        Response status (JObj fs) \<Rightarrow> Response status (JObj (AList.delete ''image'' fs))
      | Response status body \<Rightarrow> Response status body)"

section \<open>A sample request\<close>

text \<open>
  The scenario of the spec: the page of Widget X, ten search results, three of the
  seven retained results scraped, one summary that is \<^verbatim>\<open>null\<close>.
\<close>

definition demo_body :: jsobject where
  "demo_body = [(''url'', JStr ''https://example.com/prod1'')]"

definition demo_page :: SourceDocument where
  "demo_page = \<lparr>source_url = ''https://example.com/prod1'', content = ''Widget X details...''\<rparr>"

definition demo_results :: "string list" where
  "demo_results = [''r1'', ''r2'', ''r3'', ''r4'', ''r5'', ''r6'', ''r7'', ''r8'', ''r9'', ''r10'']"

definition demo_batch :: ScrapedBatch where
  "demo_batch =
     \<lparr>contents = [\<lparr>source_url = ''r1'', content = ''alpha''\<rparr>,
                  \<lparr>source_url = ''r2'', content = ''beta''\<rparr>,
                  \<lparr>source_url = ''r4'', content = ''gamma''\<rparr>],
      images = [''img1.png'', ''img2.png'']\<rparr>"

definition demo_summarize :: "string \<Rightarrow> jsval outcome" where
  "demo_summarize c =
     (if c = ''alpha'' then Resolved (JStr ''Summary of alpha'')
      else if c = ''beta'' then Resolved JNull
      else Resolved (JStr ''Summary of gamma''))"

definition demo_object :: jsobject where
  "demo_object =
     [(''name'', JStr ''Widget X''),
      (''description'', JStr ''A widget.''),
      (''image'', JStr ''invented.png''),
      (''whereToBuy'', JArr [JObj [(''retailer'', JStr ''Shop''), (''country'', JStr ''UG''),
                                    (''price'', JStr ''10''), (''url'', JStr ''https://shop'')]]),
      (''specifications'', JArr []),
      (''faq'', JArr [])]"

definition demo_collaborators :: "string collaborators" where
  "demo_collaborators =
     \<lparr>scrapeUrl = (\<lambda>u. Resolved (Some demo_page)),
      cleanContent = (\<lambda>c. Resolved c),
      getProductName = (\<lambda>c. Resolved ''Widget X''),
      searchGoogle = (\<lambda>q. Resolved \<lparr>searchResults = demo_results\<rparr>),
      scrapeSearchResults = (\<lambda>rs n. Resolved demo_batch),
      selectBestImageWithVision = (\<lambda>imgs n. Resolved (JStr ''img2.png'')),
      summarizeContent = demo_summarize,
      languageModel = (\<lambda>p. Resolved demo_object),
      schemaMismatch = ErrorObj ''response did not match schema''\<rparr>"

text \<open>The same with a summarizer that throws on the second content.\<close>

definition throwing_summarize :: "string \<Rightarrow> jsval outcome" where
  "throwing_summarize c =
     (if c = ''beta'' then Rejected (ErrorObj ''summarizer unavailable'')
      else Resolved (JStr ''Summary''))"

text \<open>Variants in which one fatal stage fails.\<close>

definition no_extraction :: "string collaborators" where
  "no_extraction = demo_collaborators\<lparr>scrapeUrl := (\<lambda>u. Resolved None)\<rparr>"

definition no_identification :: "string collaborators" where
  "no_identification =
     demo_collaborators\<lparr>getProductName := (\<lambda>c. Rejected (ErrorObj ''no product found''))\<rparr>"

definition no_synthesis :: "string collaborators" where
  "no_synthesis =
     demo_collaborators\<lparr>languageModel := (\<lambda>p. Resolved [(''name'', JStr ''Widget X'')])\<rparr>"

text \<open>Variants of the sample for the fault-tolerance properties.\<close>

definition flaky_summarizer :: "string collaborators" where
  "flaky_summarizer = demo_collaborators\<lparr>summarizeContent := throwing_summarize\<rparr>"

definition two_summarizers_throw :: "string collaborators" where
  "two_summarizers_throw =
     demo_collaborators\<lparr>summarizeContent :=
       (\<lambda>c. if c = ''alpha'' then Rejected (ErrorObj ''alpha failed'')
            else if c = ''gamma'' then Rejected (ErrorObj ''gamma failed'')
            else Resolved (JStr ''Summary''))\<rparr>"

definition all_scrapes_fail :: "string collaborators" where
  "all_scrapes_fail =
     demo_collaborators\<lparr>scrapeSearchResults :=
       scrape_fanout (\<lambda>r n. Rejected (ErrorObj ''navigation timeout''))\<rparr>"

text \<open>No scrape succeeds, and the image selector throws when it is given no image.\<close>

definition selector_rejects_empty :: "string collaborators" where
  "selector_rejects_empty =
     all_scrapes_fail\<lparr>selectBestImageWithVision :=
       (\<lambda>imgs n. if imgs = [] then Rejected (ErrorObj ''no images to choose from'')
                  else Resolved (JStr ''img2.png''))\<rparr>"

section \<open>Projections of a call log\<close>

text \<open>The arguments of the calls to \<^verbatim>\<open>scrapeSearchResults\<close> in a call log.\<close>

definition scrape_calls :: "'r call list \<Rightarrow> ('r list \<times> string) list" where
  "scrape_calls cl =
     concat (map (\<lambda>c. case c of CallScrapeSearchResults rs n \<Rightarrow> [(rs, n)] | _ \<Rightarrow> []) cl)"

text \<open>A summary that the filter keeps.\<close>

definition usable_summary :: "jsval \<Rightarrow> bool" where
  "usable_summary v = (case v of JStr s \<Rightarrow> s \<noteq> [] | _ \<Rightarrow> False)"

section \<open>Facts about \<^verbatim>\<open>Promise.all\<close> and the runs of the handler\<close>

lemma first_rejection_None_iff:
  "first_rejection ps = None \<longleftrightarrow> ps = map Resolved (resolved_values ps)"
  by (induction ps rule: first_rejection.induct) auto

lemma first_rejection_Some_mem:
  "first_rejection ps = Some e \<Longrightarrow> Rejected e \<in> set ps"
  by (induction ps rule: first_rejection.induct) auto

lemma first_rejection_append:
  "first_rejection (ps @ qs) =
     (case first_rejection ps of Some e \<Rightarrow> Some e | None \<Rightarrow> first_rejection qs)"
  by (induction ps rule: first_rejection.induct) auto

lemma first_rejection_map_Resolved [simp]: "first_rejection (map Resolved vs) = None"
  by (induction vs) auto

lemma resolved_values_map_Resolved [simp]: "resolved_values (map Resolved vs) = vs"
  by (induction vs) auto

lemma Promise_all_map_Resolved [simp]: "Promise_all sched (map Resolved vs) = Resolved vs"
proof -
  have "map (\<lambda>i. map Resolved vs ! i) (settle_order sched (length vs))
        = map Resolved (map (\<lambda>i. vs ! i) (settle_order sched (length vs)))"
    by (auto simp: settle_order_def)
  then show ?thesis
    by (simp add: Promise_all_def del: map_map)
qed

lemma Promise_all_Rejected_mem:
  assumes "Promise_all sched ps = Rejected e"
  shows "Rejected e \<in> set ps"
proof -
  from assms have "first_rejection (map (\<lambda>i. ps ! i) (settle_order sched (length ps))) = Some e"
    by (auto simp: Promise_all_def split: option.splits)
  then have "Rejected e \<in> set (map (\<lambda>i. ps ! i) (settle_order sched (length ps)))"
    by (rule first_rejection_Some_mem)
  then show ?thesis
    by (auto simp: settle_order_def)
qed

lemma Promise_all_Resolved_iff:
  "Promise_all sched ps = Resolved vs \<longleftrightarrow> ps = map Resolved vs"
proof
  assume r: "Promise_all sched ps = Resolved vs"
  then have n: "first_rejection (map (\<lambda>i. ps ! i) (settle_order sched (length ps))) = None"
    and vs: "vs = resolved_values ps"
    by (auto simp: Promise_all_def split: option.splits)
  have "map (\<lambda>i. ps ! i) (settle_order sched (length ps))
        = map (\<lambda>i. ps ! i) (filter (\<lambda>i. i < length ps) sched) @ ps"
    by (simp add: settle_order_def map_nth)
  with n have "first_rejection ps = None"
    by (simp add: first_rejection_append split: option.splits)
  then show "ps = map Resolved vs"
    using vs by (simp add: first_rejection_None_iff)
next
  assume "ps = map Resolved vs"
  then show "Promise_all sched ps = Resolved vs" by simp
qed

lemmas io_defs = andThen_def await_def throw_def return_stmt_def json_def summarize_all_def

lemmas reach_defs = reaches_selection_def reaches_search_def
  calls_through_selection_def calls_through_search_def summaries_def summarize_calls_def

lemma handler_scrape_rejected:
  assumes "reaches_search cs body page cleaned name results"
    and "scrapeSearchResults cs (take 7 results) name = Rejected e"
  shows "handler cs sched body =
     \<lparr>calls = calls_through_search body page cleaned name @
              [CallScrapeSearchResults (take 7 results) name],
      responses = [failure_response e]\<rparr>"
  using assms by (simp add: handler_def try_body_def io_defs reach_defs)

lemma handler_select_rejected:
  assumes "reaches_selection cs body page cleaned name results batch"
    and "selectBestImageWithVision cs (images batch) name = Rejected e"
  shows "handler cs sched body =
     \<lparr>calls = calls_through_selection body page cleaned name results batch,
      responses = [failure_response e]\<rparr>"
  using assms by (simp add: handler_def try_body_def io_defs reach_defs)

lemma handler_summarizer_rejected:
  assumes "reaches_selection cs body page cleaned name results batch"
    and "selectBestImageWithVision cs (images batch) name = Resolved bestImage"
    and "Promise_all sched (summaries cs batch) = Rejected e"
  shows "handler cs sched body =
     \<lparr>calls = calls_through_selection body page cleaned name results batch @
              summarize_calls batch,
      responses = [failure_response e]\<rparr>"
  using assms by (simp add: handler_def try_body_def io_defs reach_defs)

lemma handler_synthesis:
  assumes "reaches_selection cs body page cleaned name results batch"
    and "selectBestImageWithVision cs (images batch) name = Resolved bestImage"
    and "Promise_all sched (summaries cs batch) = Resolved vs"
  shows "handler cs sched body =
     \<lparr>calls = calls_through_selection body page cleaned name results batch @
              summarize_calls batch @
              [CallGenerateObject (prompt name (combinedDetails vs))],
      responses =
        [case generateObject ProductSchema cs (prompt name (combinedDetails vs)) of
           Resolved obj \<Rightarrow> Response 200 (JObj (set_prop obj ''image'' bestImage))
         | Rejected e \<Rightarrow> failure_response e]\<rparr>"
  using assms
  by (simp add: handler_def try_body_def io_defs reach_defs split: outcome.splits)

lemma handler_200D:
  assumes "Response 200 r \<in> set (responses (handler cs sched body))"
  shows "\<exists>page cleaned name results batch bestImage vs obj.
     reaches_selection cs body page cleaned name results batch \<and>
     selectBestImageWithVision cs (images batch) name = Resolved bestImage \<and>
     Promise_all sched (summaries cs batch) = Resolved vs \<and>
     generateObject ProductSchema cs (prompt name (combinedDetails vs)) = Resolved obj \<and>
     r = JObj (set_prop obj ''image'' bestImage)"
  using assms
  apply (simp add: handler_def try_body_def io_defs reaches_selection_def reaches_search_def
      summaries_def failure_response_def Let_def
      split: outcome.splits option.splits if_splits)
  apply (metis (full_types) SearchResponse.surjective old.unit.exhaust)
  done

lemma demo_reaches_search:
  "reaches_search demo_collaborators demo_body demo_page ''Widget X details...'' ''Widget X''
     demo_results"
  by (simp add: reaches_search_def demo_collaborators_def demo_body_def demo_page_def
      get_prop_def)

lemma demo_reaches_selection:
  "reaches_selection demo_collaborators demo_body demo_page ''Widget X details...'' ''Widget X''
     demo_results demo_batch"
  by (simp add: reaches_selection_def demo_reaches_search) (simp add: demo_collaborators_def)

lemma demo_summaries:
  "summaries demo_collaborators demo_batch =
     map Resolved [JStr ''Summary of alpha'', JNull, JStr ''Summary of gamma'']"
  by (simp add: summaries_def demo_collaborators_def demo_batch_def demo_summarize_def)

lemma scrape_calls_summarize_calls [simp]: "scrape_calls (summarize_calls batch) = []"
  by (simp add: scrape_calls_def summarize_calls_def)

lemma scrape_calls_Nil [simp]: "scrape_calls [] = []"
  by (simp add: scrape_calls_def)

lemma scrape_calls_Cons [simp]:
  "scrape_calls (c # cl) =
     (case c of CallScrapeSearchResults rs n \<Rightarrow> [(rs, n)] | _ \<Rightarrow> []) @ scrape_calls cl"
  by (simp add: scrape_calls_def)

lemma scrape_calls_append [simp]: "scrape_calls (xs @ ys) = scrape_calls xs @ scrape_calls ys"
  by (simp add: scrape_calls_def)

lemma scrape_calls_through_search [simp]:
  "scrape_calls (calls_through_search body page cleaned name) = []"
  by (simp add: calls_through_search_def)

lemma nonempty_strings_filter:
  "nonempty_strings (filter usable_summary vs) = nonempty_strings vs"
  by (induction vs rule: nonempty_strings.induct) (simp_all add: usable_summary_def)

lemma flaky_reaches_selection:
  "reaches_selection flaky_summarizer demo_body demo_page ''Widget X details...'' ''Widget X''
     demo_results demo_batch"
  using demo_reaches_selection
  by (simp add: reaches_selection_def reaches_search_def flaky_summarizer_def)

lemma flaky_summaries:
  "summaries flaky_summarizer demo_batch =
     [Resolved (JStr ''Summary''), Rejected (ErrorObj ''summarizer unavailable''),
      Resolved (JStr ''Summary'')]"
  by (simp add: summaries_def flaky_summarizer_def demo_batch_def throwing_summarize_def)

lemma flaky_Promise_all:
  "Promise_all [] (summaries flaky_summarizer demo_batch) =
     Rejected (ErrorObj ''summarizer unavailable'')"
  by (simp add: flaky_summaries Promise_all_def settle_order_def upt_rec)

lemma demo_select:
  "selectBestImageWithVision demo_collaborators (images demo_batch) ''Widget X'' =
     Resolved (JStr ''img2.png'')"
  by (simp add: demo_collaborators_def)

lemma demo_ProductSchema: "ProductSchema demo_object"
  by (simp add: ProductSchema_def demo_object_def get_prop_def is_string_def array_of_def
      has_props_def)

lemma demo_generateObject: "generateObject ProductSchema demo_collaborators p = Resolved demo_object"
  by (simp add: generateObject_def demo_collaborators_def demo_ProductSchema)

lemma demo_combinedDetails:
  "combinedDetails [JStr ''Summary of alpha'', JNull, JStr ''Summary of gamma''] =
     ''Summary of alpha\<newline>\<newline>Summary of gamma''"
  by (simp add: combinedDetails_def)

lemma get_prop_set_prop:
  "get_prop (set_prop obj k v) k' = (if k' = k then v else get_prop obj k')"
  by (simp add: get_prop_def set_prop_def update_conv')

lemma without_image_success:
  "without_image (Response status (JObj (set_prop obj ''image'' v))) =
     Response status (JObj (AList.delete ''image'' obj))"
  by (simp add: without_image_def set_prop_def delete_update_same)

lemma without_image_failure [simp]: "without_image (failure_response e) = failure_response e"
  by (simp add: without_image_def failure_response_def)

lemma nonempty_strings_survivors: "nonempty_strings vs = surviving_summaries vs"
  by (induction vs rule: nonempty_strings.induct) (simp_all add: surviving_summaries_def)

lemma join_blank_line_separated: "join ''\<newline>\<newline>'' ss = blank_line_separated ss"
  by (induction "''\<newline>\<newline>''" ss rule: join.induct) simp_all

lemma combinedDetails_spec: "combinedDetails vs = synthesis_context_spec vs"
  by (simp add: combinedDetails_def synthesis_context_spec_def nonempty_strings_survivors
      join_blank_line_separated)

lemma survivors_subseq: "subseq (map JStr (surviving_summaries vs)) vs"
proof (induction vs)
  case Nil
  show ?case by (simp add: surviving_summaries_def)
next
  case (Cons v vs)
  then show ?case
    by (cases v) (auto simp: surviving_summaries_def)
qed

lemma resolved_values_all_failed:
  "list_all scrape_failed ps \<Longrightarrow> resolved_values ps = []"
  by (induction ps rule: resolved_values.induct) (simp_all add: scrape_failed_def)

lemma demo_Promise_all:
  "Promise_all sched (summaries demo_collaborators demo_batch) =
     Resolved [JStr ''Summary of alpha'', JNull, JStr ''Summary of gamma'']"
  by (simp add: demo_summaries del: list.map)

lemma demo_handler:
  "handler demo_collaborators sched demo_body =
     \<lparr>calls = calls_through_selection demo_body demo_page ''Widget X details...'' ''Widget X''
                demo_results demo_batch @ summarize_calls demo_batch @
              [CallGenerateObject
                 (prompt ''Widget X'' ''Summary of alpha\<newline>\<newline>Summary of gamma'')],
      responses = [Response 200 (JObj (set_prop demo_object ''image'' (JStr ''img2.png'')))]\<rparr>"
  using handler_synthesis [OF demo_reaches_selection demo_select demo_Promise_all, of sched]
  by (simp add: demo_generateObject demo_combinedDetails)

lemma all_scrapes_fail_reaches_search:
  "reaches_search all_scrapes_fail demo_body demo_page ''Widget X details...'' ''Widget X''
     demo_results"
  using demo_reaches_search by (simp add: reaches_search_def all_scrapes_fail_def)

lemma selector_rejects_empty_reaches_search:
  "reaches_search selector_rejects_empty demo_body demo_page ''Widget X details...'' ''Widget X''
     demo_results"
  using all_scrapes_fail_reaches_search
  by (simp add: reaches_search_def selector_rejects_empty_def)

lemma demo_scrapes_all_fail:
  "list_all (\<lambda>r. scrape_failed ((\<lambda>r n. Rejected (ErrorObj ''navigation timeout'')) r
     ''Widget X'')) (take 7 demo_results)"
  by (simp add: scrape_failed_def demo_results_def)

lemma selector_rejects_empty_batch:
  "scrapeSearchResults selector_rejects_empty (take 7 demo_results) ''Widget X'' =
     Resolved \<lparr>contents = [], images = []\<rparr>"
  by (simp add: selector_rejects_empty_def all_scrapes_fail_def scrape_fanout_def
      demo_results_def)

section \<open>Input validation and fatal failures\<close>

text \<open>
  Claim C3. A request whose \<open>url\<close> is missing or empty (or falsy in any other way) is
  answered with the validation error, status 400 and \<^verbatim>\<open>URL is required\<close>, and the run
  makes no call to any collaborator: not to extraction, cleaning, identification,
  search, scraping, image selection, summarization or synthesis.
\<close>

theorem missing_url_rejected_before_any_call:
  "\<not> truthy (get_prop body ''url'') \<Longrightarrow>
   handler cs sched body =
     \<lparr>calls = [], responses = [Response 400 (JObj [(''error'', JStr ''URL is required'')])]\<rparr>"
  by (simp add: handler_def try_body_def io_defs)

theorem missing_url_rejected_before_any_call_witness:
  "\<not> truthy (get_prop [] ''url'') \<and>
   handler demo_collaborators [] [] =
     \<lparr>calls = [], responses = [Response 400 (JObj [(''error'', JStr ''URL is required'')])]\<rparr> \<and>
   \<not> truthy (get_prop [(''url'', JStr '''')] ''url'') \<and>
   handler demo_collaborators [] [(''url'', JStr '''')] =
     \<lparr>calls = [], responses = [Response 400 (JObj [(''error'', JStr ''URL is required'')])]\<rparr>"
proof -
  have a: "\<not> truthy (get_prop [] ''url'')" by (simp add: get_prop_def)
  have b: "\<not> truthy (get_prop [(''url'', JStr '''')] ''url'')" by (simp add: get_prop_def)
  show ?thesis
    using a b
      missing_url_rejected_before_any_call [OF a, of demo_collaborators "[]"]
      missing_url_rejected_before_any_call [OF b, of demo_collaborators "[]"]
    by simp
qed

text \<open>
  Claim C2. When extraction, identification or synthesis fails, the request stops at
  that stage (the calls made are those up to it) and the caller receives exactly one
  response: status 500 with the fixed summary \<^verbatim>\<open>Failed to scrape product information\<close>
  and, as details, the message of the error behind the failure (\<open>error_details\<close>: the
  message of an \<^verbatim>\<open>Error\<close>, and \<^verbatim>\<open>Unknown error\<close> for a thrown value that is not one).
  No record is sent.
\<close>

theorem fatal_failure_single_response:
  "(extraction_fails cs body e \<longrightarrow>
      handler cs sched body =
        \<lparr>calls = [CallScrapeUrl (get_prop body ''url'')],
         responses = [Response 500
           (JObj [(''error'', JStr ''Failed to scrape product information''),
                  (''details'', JStr (error_details e))])]\<rparr>) \<and>
   (identification_fails cs body page cleaned e \<longrightarrow>
      handler cs sched body =
        \<lparr>calls = [CallScrapeUrl (get_prop body ''url''), CallCleanContent (content page),
                  CallGetProductName cleaned],
         responses = [Response 500
           (JObj [(''error'', JStr ''Failed to scrape product information''),
                  (''details'', JStr (error_details e))])]\<rparr>) \<and>
   (synthesis_fails cs sched body page cleaned name results batch bestImage vs e \<longrightarrow>
      handler cs sched body =
        \<lparr>calls = calls_through_selection body page cleaned name results batch @
                 summarize_calls batch @
                 [CallGenerateObject (prompt name (combinedDetails vs))],
         responses = [Response 500
           (JObj [(''error'', JStr ''Failed to scrape product information''),
                  (''details'', JStr (error_details e))])]\<rparr>)"
proof (intro conjI impI)
  assume "extraction_fails cs body e"
  then show "handler cs sched body =
        \<lparr>calls = [CallScrapeUrl (get_prop body ''url'')],
         responses = [Response 500
           (JObj [(''error'', JStr ''Failed to scrape product information''),
                  (''details'', JStr (error_details e))])]\<rparr>"
    by (auto simp: extraction_fails_def handler_def try_body_def io_defs failure_response_def
        split: outcome.splits option.splits)
next
  assume "identification_fails cs body page cleaned e"
  then show "handler cs sched body =
        \<lparr>calls = [CallScrapeUrl (get_prop body ''url''), CallCleanContent (content page),
                  CallGetProductName cleaned],
         responses = [Response 500
           (JObj [(''error'', JStr ''Failed to scrape product information''),
                  (''details'', JStr (error_details e))])]\<rparr>"
    by (simp add: identification_fails_def handler_def try_body_def io_defs failure_response_def)
next
  assume "synthesis_fails cs sched body page cleaned name results batch bestImage vs e"
  then show "handler cs sched body =
        \<lparr>calls = calls_through_selection body page cleaned name results batch @
                 summarize_calls batch @
                 [CallGenerateObject (prompt name (combinedDetails vs))],
         responses = [Response 500
           (JObj [(''error'', JStr ''Failed to scrape product information''),
                  (''details'', JStr (error_details e))])]\<rparr>"
    by (auto simp: synthesis_fails_def failure_response_def dest!: handler_synthesis [where sched = sched])
qed

theorem fatal_failure_single_response_witness:
  "extraction_fails no_extraction demo_body (ErrorObj ''Failed to scrape initial URL'') \<and>
   responses (handler no_extraction [] demo_body) =
     [Response 500 (JObj [(''error'', JStr ''Failed to scrape product information''),
                          (''details'', JStr ''Failed to scrape initial URL'')])] \<and>
   identification_fails no_identification demo_body demo_page ''Widget X details...''
     (ErrorObj ''no product found'') \<and>
   responses (handler no_identification [] demo_body) =
     [Response 500 (JObj [(''error'', JStr ''Failed to scrape product information''),
                          (''details'', JStr ''no product found'')])] \<and>
   synthesis_fails no_synthesis [] demo_body demo_page ''Widget X details...'' ''Widget X''
     demo_results demo_batch (JStr ''img2.png'')
     [JStr ''Summary of alpha'', JNull, JStr ''Summary of gamma'']
     (ErrorObj ''response did not match schema'') \<and>
   responses (handler no_synthesis [] demo_body) =
     [Response 500 (JObj [(''error'', JStr ''Failed to scrape product information''),
                          (''details'', JStr ''response did not match schema'')])]"
proof -
  have a: "extraction_fails no_extraction demo_body (ErrorObj ''Failed to scrape initial URL'')"
    by (simp add: extraction_fails_def no_extraction_def demo_collaborators_def demo_body_def
        get_prop_def)
  have b: "identification_fails no_identification demo_body demo_page ''Widget X details...''
     (ErrorObj ''no product found'')"
    by (simp add: identification_fails_def no_identification_def demo_collaborators_def
        demo_body_def demo_page_def get_prop_def)
  have r: "reaches_selection no_synthesis demo_body demo_page ''Widget X details...''
     ''Widget X'' demo_results demo_batch"
    using demo_reaches_selection
    by (simp add: reaches_selection_def reaches_search_def no_synthesis_def)
  have s: "summaries no_synthesis demo_batch = summaries demo_collaborators demo_batch"
    by (simp add: summaries_def no_synthesis_def)
  have c: "synthesis_fails no_synthesis [] demo_body demo_page ''Widget X details...''
     ''Widget X'' demo_results demo_batch (JStr ''img2.png'')
     [JStr ''Summary of alpha'', JNull, JStr ''Summary of gamma'']
     (ErrorObj ''response did not match schema'')"
    unfolding synthesis_fails_def
    apply (intro conjI)
       apply (rule r)
      apply (simp add: no_synthesis_def demo_collaborators_def)
     apply (simp add: s demo_summaries del: list.map)
    apply (simp add: generateObject_def no_synthesis_def demo_collaborators_def
        ProductSchema_def get_prop_def is_string_def array_of_def)
    done
  from fatal_failure_single_response [where cs = no_extraction and body = demo_body
      and e = "ErrorObj ''Failed to scrape initial URL''" and sched = "[]"] a
  have a': "responses (handler no_extraction [] demo_body) =
     [Response 500 (JObj [(''error'', JStr ''Failed to scrape product information''),
                          (''details'', JStr ''Failed to scrape initial URL'')])]"
    by (simp add: error_details_def)
  from fatal_failure_single_response [where cs = no_identification and body = demo_body
      and page = demo_page and cleaned = "''Widget X details...''"
      and e = "ErrorObj ''no product found''" and sched = "[]"] b
  have b': "responses (handler no_identification [] demo_body) =
     [Response 500 (JObj [(''error'', JStr ''Failed to scrape product information''),
                          (''details'', JStr ''no product found'')])]"
    by (simp add: error_details_def)
  from fatal_failure_single_response [where cs = no_synthesis and body = demo_body
      and e = "ErrorObj ''response did not match schema''" and sched = "[]"
      and page = demo_page and cleaned = "''Widget X details...''" and name = "''Widget X''"
      and results = demo_results and batch = demo_batch and bestImage = "JStr ''img2.png''"
      and vs = "[JStr ''Summary of alpha'', JNull, JStr ''Summary of gamma'']"] c
  have c': "responses (handler no_synthesis [] demo_body) =
     [Response 500 (JObj [(''error'', JStr ''Failed to scrape product information''),
                          (''details'', JStr ''response did not match schema'')])]"
    by (simp add: error_details_def)
  show ?thesis using a b c a' b' c' by simp
qed

section \<open>Truncation of the search results\<close>

text \<open>
  Claim C4. Whatever sequence of results the search returns, the run calls
  \<^verbatim>\<open>scrapeSearchResults\<close> exactly once, with the first 7 results in their order: the
  number of results passed on is \<open>min 7 (length results)\<close>, a shorter sequence is passed
  on whole, and its length never makes the handler fail.
\<close>

theorem search_results_truncated_to_seven:
  assumes "reaches_search cs body page cleaned name results"
  shows "scrape_calls (calls (handler cs sched body)) = [(take 7 results, name)] \<and>
         length (take 7 results) = min 7 (length results) \<and>
         prefix (take 7 results) results"
proof -
  have "scrape_calls (calls (handler cs sched body)) = [(take 7 results, name)]"
  proof (cases "scrapeSearchResults cs (take 7 results) name")
    case (Rejected e)
    with assms show ?thesis
      by (simp add: handler_scrape_rejected)
  next
    case (Resolved batch)
    with assms have r: "reaches_selection cs body page cleaned name results batch"
      by (simp add: reaches_selection_def)
    show ?thesis
    proof (cases "selectBestImageWithVision cs (images batch) name")
      case (Rejected e)
      with r show ?thesis
        by (simp add: handler_select_rejected calls_through_selection_def)
    next
      case sel: (Resolved bestImage)
      show ?thesis
      proof (cases "Promise_all sched (summaries cs batch)")
        case (Rejected e)
        with r sel show ?thesis
          by (simp add: handler_summarizer_rejected calls_through_selection_def)
      next
        case (Resolved vs)
        with r sel show ?thesis
          by (simp add: handler_synthesis calls_through_selection_def)
      qed
    qed
  qed
  then show ?thesis
    by (simp add: take_is_prefix)
qed

theorem search_results_truncated_to_seven_witness:
  "reaches_search demo_collaborators demo_body demo_page ''Widget X details...'' ''Widget X''
     demo_results \<and>
   length demo_results = 10 \<and>
   scrape_calls (calls (handler demo_collaborators [] demo_body)) =
     [([''r1'', ''r2'', ''r3'', ''r4'', ''r5'', ''r6'', ''r7''], ''Widget X'')]"
  using demo_reaches_search
    search_results_truncated_to_seven [OF demo_reaches_search, of "[]"]
  by (simp add: demo_results_def)

section \<open>Summarization and the synthesis context\<close>

text \<open>
  Claim C1 says that a failing \<^verbatim>\<open>summarizeContent\<close> call is absorbed and never reaches
  the caller. It fails where the call throws: \<^verbatim>\<open>Promise.all\<close> rejects as soon as one
  of its promises does, nothing in the handler catches the rejection per item, and the
  \<^verbatim>\<open>catch\<close> block answers with status 500. In the sample request below the summarizer
  throws on the second of three contents; the synthesizer is never called and the caller
  gets the failure response with the summarizer's message.
\<close>

theorem summarizer_failure_escalates_counterexample:
  "reaches_selection flaky_summarizer demo_body demo_page ''Widget X details...'' ''Widget X''
     demo_results demo_batch \<and>
   selectBestImageWithVision flaky_summarizer (images demo_batch) ''Widget X'' =
     Resolved (JStr ''img2.png'') \<and>
   summarizeContent flaky_summarizer ''beta'' = Rejected (ErrorObj ''summarizer unavailable'') \<and>
   handler flaky_summarizer [] demo_body =
     \<lparr>calls =
        [CallScrapeUrl (JStr ''https://example.com/prod1''),
         CallCleanContent ''Widget X details...'',
         CallGetProductName ''Widget X details...'',
         CallSearchGoogle ''Widget X'',
         CallScrapeSearchResults [''r1'', ''r2'', ''r3'', ''r4'', ''r5'', ''r6'', ''r7'']
           ''Widget X'',
         CallSelectBestImageWithVision [''img1.png'', ''img2.png''] ''Widget X'',
         CallSummarizeContent ''alpha'', CallSummarizeContent ''beta'',
         CallSummarizeContent ''gamma''],
      responses =
        [Response 500 (JObj [(''error'', JStr ''Failed to scrape product information''),
                             (''details'', JStr ''summarizer unavailable'')])]\<rparr>"
proof -
  have sel: "selectBestImageWithVision flaky_summarizer (images demo_batch) ''Widget X'' =
     Resolved (JStr ''img2.png'')"
    by (simp add: flaky_summarizer_def demo_collaborators_def)
  have "summarizeContent flaky_summarizer ''beta'' = Rejected (ErrorObj ''summarizer unavailable'')"
    by (simp add: flaky_summarizer_def throwing_summarize_def)
  moreover have "handler flaky_summarizer [] demo_body =
     \<lparr>calls = calls_through_selection demo_body demo_page ''Widget X details...'' ''Widget X''
                demo_results demo_batch @ summarize_calls demo_batch,
      responses = [failure_response (ErrorObj ''summarizer unavailable'')]\<rparr>"
    by (rule handler_summarizer_rejected [OF flaky_reaches_selection sel flaky_Promise_all])
  ultimately show ?thesis
    using flaky_reaches_selection sel
    by (simp add: calls_through_selection_def calls_through_search_def summarize_calls_def
        failure_response_def error_details_def demo_body_def demo_page_def demo_results_def
        demo_batch_def get_prop_def)
qed

text \<open>
  Claim C1, as amended. For a request that reaches the summarization stage: if every
  \<^verbatim>\<open>summarizeContent\<close> call returns, the results that are empty or not strings
  contribute nothing to the joined summaries (the context is the same as with them
  removed), the synthesizer is called, and the response depends on the synthesis alone:
  the record when it succeeds, the failure response when it fails. If some call throws,
  the request ends after the summarization calls with the failure response for the error
  of one of the throwing calls, and the synthesizer is not called.
\<close>

theorem summarizer_failures_absorbed_unless_thrown:
  assumes "reaches_selection cs body page cleaned name results batch"
    and "selectBestImageWithVision cs (images batch) name = Resolved bestImage"
  shows "(summaries cs batch = map Resolved vs \<longrightarrow>
            combinedDetails vs = combinedDetails (filter usable_summary vs) \<and>
            handler cs sched body =
              \<lparr>calls = calls_through_selection body page cleaned name results batch @
                       summarize_calls batch @
                       [CallGenerateObject (prompt name (combinedDetails vs))],
               responses =
                 [case generateObject ProductSchema cs (prompt name (combinedDetails vs)) of
                    Resolved obj \<Rightarrow> Response 200 (JObj (set_prop obj ''image'' bestImage))
                  | Rejected e \<Rightarrow> failure_response e]\<rparr>) \<and>
         (Rejected e \<in> set (summaries cs batch) \<longrightarrow>
            (\<exists>e'. Rejected e' \<in> set (summaries cs batch) \<and>
               handler cs sched body =
                 \<lparr>calls = calls_through_selection body page cleaned name results batch @
                          summarize_calls batch,
                  responses = [failure_response e']\<rparr>))"
proof (intro conjI impI)
  show "combinedDetails vs = combinedDetails (filter usable_summary vs)"
    by (simp add: combinedDetails_def nonempty_strings_filter)
next
  assume "summaries cs batch = map Resolved vs"
  then have "Promise_all sched (summaries cs batch) = Resolved vs"
    by simp
  then show "handler cs sched body =
              \<lparr>calls = calls_through_selection body page cleaned name results batch @
                       summarize_calls batch @
                       [CallGenerateObject (prompt name (combinedDetails vs))],
               responses =
                 [case generateObject ProductSchema cs (prompt name (combinedDetails vs)) of
                    Resolved obj \<Rightarrow> Response 200 (JObj (set_prop obj ''image'' bestImage))
                  | Rejected e \<Rightarrow> failure_response e]\<rparr>"
    by (rule handler_synthesis [OF assms])
next
  assume rej: "Rejected e \<in> set (summaries cs batch)"
  show "\<exists>e'. Rejected e' \<in> set (summaries cs batch) \<and>
               handler cs sched body =
                 \<lparr>calls = calls_through_selection body page cleaned name results batch @
                          summarize_calls batch,
                  responses = [failure_response e']\<rparr>"
  proof (cases "Promise_all sched (summaries cs batch)")
    case (Resolved ws)
    then have "summaries cs batch = map Resolved ws"
      by (simp add: Promise_all_Resolved_iff)
    with rej show ?thesis by auto
  next
    case (Rejected e')
    then have "Rejected e' \<in> set (summaries cs batch)"
      by (rule Promise_all_Rejected_mem)
    moreover have "handler cs sched body =
                 \<lparr>calls = calls_through_selection body page cleaned name results batch @
                          summarize_calls batch,
                  responses = [failure_response e']\<rparr>"
      by (rule handler_summarizer_rejected [OF assms Rejected])
    ultimately show ?thesis by blast
  qed
qed

theorem summarizer_failures_absorbed_unless_thrown_witness:
  "reaches_selection demo_collaborators demo_body demo_page ''Widget X details...'' ''Widget X''
     demo_results demo_batch \<and>
   selectBestImageWithVision demo_collaborators (images demo_batch) ''Widget X'' =
     Resolved (JStr ''img2.png'') \<and>
   summaries demo_collaborators demo_batch =
     map Resolved [JStr ''Summary of alpha'', JNull, JStr ''Summary of gamma''] \<and>
   last (calls (handler demo_collaborators [] demo_body)) =
     CallGenerateObject (prompt ''Widget X'' ''Summary of alpha\<newline>\<newline>Summary of gamma'') \<and>
   responses (handler demo_collaborators [] demo_body) =
     [Response 200 (JObj (set_prop demo_object ''image'' (JStr ''img2.png'')))] \<and>
   reaches_selection flaky_summarizer demo_body demo_page ''Widget X details...'' ''Widget X''
     demo_results demo_batch \<and>
   selectBestImageWithVision flaky_summarizer (images demo_batch) ''Widget X'' =
     Resolved (JStr ''img2.png'') \<and>
   Rejected (ErrorObj ''summarizer unavailable'') \<in> set (summaries flaky_summarizer demo_batch) \<and>
   responses (handler flaky_summarizer [2, 0] demo_body) =
     [failure_response (ErrorObj ''summarizer unavailable'')]"
proof -
  have sel: "selectBestImageWithVision flaky_summarizer (images demo_batch) ''Widget X'' =
     Resolved (JStr ''img2.png'')"
    by (simp add: flaky_summarizer_def demo_collaborators_def)
  have rej: "Rejected (ErrorObj ''summarizer unavailable'') \<in>
     set (summaries flaky_summarizer demo_batch)"
    by (simp add: flaky_summaries)
  have a: "last (calls (handler demo_collaborators [] demo_body)) =
      CallGenerateObject (prompt ''Widget X'' ''Summary of alpha\<newline>\<newline>Summary of gamma'') \<and>
    responses (handler demo_collaborators [] demo_body) =
      [Response 200 (JObj (set_prop demo_object ''image'' (JStr ''img2.png'')))]"
    using summarizer_failures_absorbed_unless_thrown [OF demo_reaches_selection demo_select,
        where vs = "[JStr ''Summary of alpha'', JNull, JStr ''Summary of gamma'']"
        and sched = "[]"] demo_summaries
    by (simp add: demo_generateObject demo_combinedDetails)
  have b: "responses (handler flaky_summarizer [2, 0] demo_body) =
     [failure_response (ErrorObj ''summarizer unavailable'')]"
  proof -
    from summarizer_failures_absorbed_unless_thrown [OF flaky_reaches_selection sel,
        where e = "ErrorObj ''summarizer unavailable''" and sched = "[2, 0]" and vs = "[]"] rej
    obtain e' where mem: "Rejected e' \<in> set (summaries flaky_summarizer demo_batch)"
      and run: "handler flaky_summarizer [2, 0] demo_body =
       \<lparr>calls = calls_through_selection demo_body demo_page ''Widget X details...''
                  ''Widget X'' demo_results demo_batch @ summarize_calls demo_batch,
        responses = [failure_response e']\<rparr>"
      by blast
    from mem have "e' = ErrorObj ''summarizer unavailable''"
      by (simp add: flaky_summaries)
    with run show ?thesis by simp
  qed
  show ?thesis
    using demo_reaches_selection demo_select demo_summaries flaky_reaches_selection sel rej a b
    by simp
qed

text \<open>
  Claim C7. When every summary has arrived, the \<open>i\<close>-th result is the summary of the
  \<open>i\<close>-th scraped content, whatever the order in which the calls finished. The context
  computed by the handler is the one the spec describes: the results that are non-empty
  strings, in their original order (a subsequence of the results), concatenated with a
  blank line between them. That context, in the prompt template, is what the synthesizer
  is called with.
\<close>

theorem synthesis_context_is_joined_survivors:
  assumes "reaches_selection cs body page cleaned name results batch"
    and "selectBestImageWithVision cs (images batch) name = Resolved bestImage"
    and "Promise_all sched (summaries cs batch) = Resolved vs"
  shows "summaries cs batch = map Resolved vs \<and>
         combinedDetails vs = synthesis_context_spec vs \<and>
         subseq (map JStr (surviving_summaries vs)) vs \<and>
         last (calls (handler cs sched body)) =
           CallGenerateObject (prompt name (synthesis_context_spec vs))"
proof -
  from assms(3) have "summaries cs batch = map Resolved vs"
    by (simp add: Promise_all_Resolved_iff)
  moreover have "last (calls (handler cs sched body)) =
           CallGenerateObject (prompt name (synthesis_context_spec vs))"
    by (simp add: handler_synthesis [OF assms] combinedDetails_spec)
  ultimately show ?thesis
    by (simp add: combinedDetails_spec survivors_subseq)
qed

theorem synthesis_context_is_joined_survivors_witness:
  "reaches_selection demo_collaborators demo_body demo_page ''Widget X details...'' ''Widget X''
     demo_results demo_batch \<and>
   selectBestImageWithVision demo_collaborators (images demo_batch) ''Widget X'' =
     Resolved (JStr ''img2.png'') \<and>
   Promise_all [2, 1, 0] (summaries demo_collaborators demo_batch) =
     Resolved [JStr ''Summary of alpha'', JNull, JStr ''Summary of gamma''] \<and>
   synthesis_context_spec [JStr ''Summary of alpha'', JNull, JStr ''Summary of gamma''] =
     ''Summary of alpha\<newline>\<newline>Summary of gamma'' \<and>
   last (calls (handler demo_collaborators [2, 1, 0] demo_body)) =
     CallGenerateObject (prompt ''Widget X'' ''Summary of alpha\<newline>\<newline>Summary of gamma'')"
proof -
  have c: "synthesis_context_spec [JStr ''Summary of alpha'', JNull, JStr ''Summary of gamma''] =
     ''Summary of alpha\<newline>\<newline>Summary of gamma''"
    by (simp add: synthesis_context_spec_def surviving_summaries_def)
  show ?thesis
    using demo_reaches_selection demo_select demo_Promise_all [of "[2, 1, 0]"] c
      synthesis_context_is_joined_survivors
        [OF demo_reaches_selection demo_select demo_Promise_all, of "[2, 1, 0]"]
    by simp
qed

section \<open>An empty evidence base\<close>

text \<open>
  Claim C6 says that, when every retained search result fails to scrape, the image
  selection and the synthesis are still invoked and the request succeeds unless the
  synthesis itself fails. It fails where the image selection throws: the call is awaited
  in the one \<^verbatim>\<open>try\<close> block, so the \<^verbatim>\<open>catch\<close> block answers with status 500 and the
  synthesizer is never called, although it would have returned a conformant object. In
  the request below no scrape succeeds and the selector throws on the empty list of
  images.
\<close>

theorem empty_evidence_selector_failure_counterexample:
  "scrapeSearchResults selector_rejects_empty
     [''r1'', ''r2'', ''r3'', ''r4'', ''r5'', ''r6'', ''r7''] ''Widget X'' =
     Resolved \<lparr>contents = [], images = []\<rparr> \<and>
   languageModel selector_rejects_empty (prompt ''Widget X'' []) = Resolved demo_object \<and>
   ProductSchema demo_object \<and>
   handler selector_rejects_empty [] demo_body =
     \<lparr>calls =
        [CallScrapeUrl (JStr ''https://example.com/prod1''),
         CallCleanContent ''Widget X details...'',
         CallGetProductName ''Widget X details...'',
         CallSearchGoogle ''Widget X'',
         CallScrapeSearchResults [''r1'', ''r2'', ''r3'', ''r4'', ''r5'', ''r6'', ''r7'']
           ''Widget X'',
         CallSelectBestImageWithVision [] ''Widget X''],
      responses =
        [Response 500 (JObj [(''error'', JStr ''Failed to scrape product information''),
                             (''details'', JStr ''no images to choose from'')])]\<rparr>"
proof -
  have r: "reaches_selection selector_rejects_empty demo_body demo_page ''Widget X details...''
     ''Widget X'' demo_results \<lparr>contents = [], images = []\<rparr>"
    using selector_rejects_empty_reaches_search selector_rejects_empty_batch
    by (simp add: reaches_selection_def)
  have s: "selectBestImageWithVision selector_rejects_empty
     (images \<lparr>contents = [], images = []\<rparr>) ''Widget X'' =
     Rejected (ErrorObj ''no images to choose from'')"
    by (simp add: selector_rejects_empty_def)
  have m: "languageModel selector_rejects_empty (prompt ''Widget X'' []) = Resolved demo_object"
    by (simp add: selector_rejects_empty_def all_scrapes_fail_def demo_collaborators_def)
  have b: "scrapeSearchResults selector_rejects_empty
     [''r1'', ''r2'', ''r3'', ''r4'', ''r5'', ''r6'', ''r7''] ''Widget X'' =
     Resolved \<lparr>contents = [], images = []\<rparr>"
    using selector_rejects_empty_batch by (simp add: demo_results_def)
  have "handler selector_rejects_empty [] demo_body =
     \<lparr>calls = calls_through_selection demo_body demo_page ''Widget X details...'' ''Widget X''
                demo_results \<lparr>contents = [], images = []\<rparr>,
      responses = [failure_response (ErrorObj ''no images to choose from'')]\<rparr>"
    by (rule handler_select_rejected [OF r s])
  then show ?thesis
    using b m demo_ProductSchema
    by (simp add: calls_through_selection_def calls_through_search_def failure_response_def
        error_details_def demo_body_def demo_page_def demo_results_def get_prop_def)
qed

text \<open>
  Claim C6, as amended. When the scrape of every retained search result fails, the batch
  has no contents and no images, and the image selection is still called, with no
  images. If it returns (an image or none), the synthesizer is still called, with an
  empty context and no summarizer call in between, and the response is the record when
  the synthesis succeeds and the failure response when it fails. If it throws, the
  request ends there with the failure response for its error. So the request fails only
  when the image selection or the synthesis fails: the empty evidence base is never by
  itself a reason to fail.
\<close>

theorem empty_evidence_fails_only_on_selection_or_synthesis:
  assumes "reaches_search cs body page cleaned name results"
    and "scrapeSearchResults cs = scrape_fanout scrapeResult"
    and "list_all (\<lambda>r. scrape_failed (scrapeResult r name)) (take 7 results)"
  shows "scrapeSearchResults cs (take 7 results) name = Resolved \<lparr>contents = [], images = []\<rparr> \<and>
         handler cs sched body =
           (case selectBestImageWithVision cs [] name of
              Rejected e \<Rightarrow>
                \<lparr>calls = calls_through_search body page cleaned name @
                         [CallScrapeSearchResults (take 7 results) name,
                          CallSelectBestImageWithVision [] name],
                 responses = [failure_response e]\<rparr>
            | Resolved bestImage \<Rightarrow>
                \<lparr>calls = calls_through_search body page cleaned name @
                         [CallScrapeSearchResults (take 7 results) name,
                          CallSelectBestImageWithVision [] name,
                          CallGenerateObject (prompt name [])],
                 responses =
                   [case generateObject ProductSchema cs (prompt name []) of
                      Resolved obj \<Rightarrow> Response 200 (JObj (set_prop obj ''image'' bestImage))
                    | Rejected e \<Rightarrow> failure_response e]\<rparr>)"
proof -
  let ?batch = "\<lparr>contents = [], images = []\<rparr>"
  from assms(3) have "resolved_values (map (\<lambda>r. scrapeResult r name) (take 7 results)) = []"
    by (intro resolved_values_all_failed) (simp add: list_all_iff)
  with assms(2) have batch: "scrapeSearchResults cs (take 7 results) name = Resolved ?batch"
    by (simp add: scrape_fanout_def)
  with assms(1) have r: "reaches_selection cs body page cleaned name results ?batch"
    by (simp add: reaches_selection_def)
  have pa: "Promise_all sched (summaries cs ?batch) = Resolved []"
    by (simp add: summaries_def Promise_all_def settle_order_def)
  have cd: "combinedDetails [] = []"
    by (simp add: combinedDetails_def)
  have "handler cs sched body =
           (case selectBestImageWithVision cs [] name of
              Rejected e \<Rightarrow>
                \<lparr>calls = calls_through_search body page cleaned name @
                         [CallScrapeSearchResults (take 7 results) name,
                          CallSelectBestImageWithVision [] name],
                 responses = [failure_response e]\<rparr>
            | Resolved bestImage \<Rightarrow>
                \<lparr>calls = calls_through_search body page cleaned name @
                         [CallScrapeSearchResults (take 7 results) name,
                          CallSelectBestImageWithVision [] name,
                          CallGenerateObject (prompt name [])],
                 responses =
                   [case generateObject ProductSchema cs (prompt name []) of
                      Resolved obj \<Rightarrow> Response 200 (JObj (set_prop obj ''image'' bestImage))
                    | Rejected e \<Rightarrow> failure_response e]\<rparr>)"
  proof (cases "selectBestImageWithVision cs [] name")
    case (Rejected e)
    then have "selectBestImageWithVision cs (images ?batch) name = Rejected e"
      by simp
    from handler_select_rejected [OF r this] Rejected show ?thesis
      by (simp add: calls_through_selection_def)
  next
    case (Resolved bestImage)
    then have sel: "selectBestImageWithVision cs (images ?batch) name = Resolved bestImage"
      by simp
    from handler_synthesis [OF r sel pa, unfolded cd] Resolved show ?thesis
      by (simp add: calls_through_selection_def summarize_calls_def)
  qed
  with batch show ?thesis by simp
qed

theorem empty_evidence_fails_only_on_selection_or_synthesis_witness:
  "reaches_search all_scrapes_fail demo_body demo_page ''Widget X details...'' ''Widget X''
     demo_results \<and>
   scrapeSearchResults all_scrapes_fail =
     scrape_fanout (\<lambda>r n. Rejected (ErrorObj ''navigation timeout'')) \<and>
   list_all (\<lambda>r. scrape_failed ((\<lambda>r n. Rejected (ErrorObj ''navigation timeout'')) r ''Widget X''))
     (take 7 demo_results) \<and>
   selectBestImageWithVision all_scrapes_fail [] ''Widget X'' = Resolved (JStr ''img2.png'') \<and>
   last (calls (handler all_scrapes_fail [] demo_body)) =
     CallGenerateObject (prompt ''Widget X'' []) \<and>
   responses (handler all_scrapes_fail [] demo_body) =
     [Response 200 (JObj (set_prop demo_object ''image'' (JStr ''img2.png'')))]"
proof -
  have f: "scrapeSearchResults all_scrapes_fail =
     scrape_fanout (\<lambda>r n. Rejected (ErrorObj ''navigation timeout''))"
    by (simp add: all_scrapes_fail_def)
  have s: "selectBestImageWithVision all_scrapes_fail [] ''Widget X'' = Resolved (JStr ''img2.png'')"
    by (simp add: all_scrapes_fail_def demo_collaborators_def)
  have g: "generateObject ProductSchema all_scrapes_fail p = Resolved demo_object" for p
    by (simp add: generateObject_def all_scrapes_fail_def demo_collaborators_def
        demo_ProductSchema)
  from empty_evidence_fails_only_on_selection_or_synthesis
    [OF all_scrapes_fail_reaches_search f demo_scrapes_all_fail, of "[]"]
  have "last (calls (handler all_scrapes_fail [] demo_body)) =
       CallGenerateObject (prompt ''Widget X'' []) \<and>
     responses (handler all_scrapes_fail [] demo_body) =
       [Response 200 (JObj (set_prop demo_object ''image'' (JStr ''img2.png'')))]"
    by (simp add: g s)
  with all_scrapes_fail_reaches_search f demo_scrapes_all_fail s show ?thesis by simp
qed

section \<open>The image\<close>

text \<open>
  Claim C5. Replace the image selector by another one, everything else being equal, both
  returning a result on the images of the request. The two runs make the same calls with
  the same arguments, in particular the synthesizer receives the same prompt, which is
  built from the product name and the summaries alone; and the two responses are equal
  once the \<open>image\<close> property is removed from their bodies. The image is attached after
  the synthesis.
\<close>

theorem image_never_influences_text:
  assumes "reaches_selection cs body page cleaned name results batch"
    and "selectBestImageWithVision cs (images batch) name = Resolved image1"
    and "selector2 (images batch) name = Resolved image2"
  shows "calls (handler (cs\<lparr>selectBestImageWithVision := selector2\<rparr>) sched body) =
           calls (handler cs sched body) \<and>
         map without_image
           (responses (handler (cs\<lparr>selectBestImageWithVision := selector2\<rparr>) sched body)) =
           map without_image (responses (handler cs sched body))"
proof -
  let ?cs2 = "cs\<lparr>selectBestImageWithVision := selector2\<rparr>"
  from assms(1) have r2: "reaches_selection ?cs2 body page cleaned name results batch"
    by (simp add: reaches_selection_def reaches_search_def)
  from assms(3) have s2: "selectBestImageWithVision ?cs2 (images batch) name = Resolved image2"
    by simp
  have sm: "summaries ?cs2 batch = summaries cs batch"
    by (simp add: summaries_def)
  have gen: "generateObject ProductSchema ?cs2 p = generateObject ProductSchema cs p" for p
    by (simp add: generateObject_def split: outcome.splits)
  show ?thesis
  proof (cases "Promise_all sched (summaries cs batch)")
    case (Rejected e)
    then have "Promise_all sched (summaries ?cs2 batch) = Rejected e"
      by (simp add: sm)
    then show ?thesis
      using Rejected
      by (simp add: handler_summarizer_rejected [OF assms(1,2)]
          handler_summarizer_rejected [OF r2 s2])
  next
    case (Resolved vs)
    then have "Promise_all sched (summaries ?cs2 batch) = Resolved vs"
      by (simp add: sm)
    then show ?thesis
      using Resolved
      by (simp add: handler_synthesis [OF assms(1,2)] handler_synthesis [OF r2 s2] gen
          without_image_success split: outcome.splits)
  qed
qed

theorem image_never_influences_text_witness:
  "reaches_selection demo_collaborators demo_body demo_page ''Widget X details...'' ''Widget X''
     demo_results demo_batch \<and>
   selectBestImageWithVision demo_collaborators (images demo_batch) ''Widget X'' =
     Resolved (JStr ''img2.png'') \<and>
   (\<lambda>imgs n. Resolved JNull) (images demo_batch) ''Widget X'' = Resolved JNull \<and>
   calls (handler (demo_collaborators\<lparr>selectBestImageWithVision := (\<lambda>imgs n. Resolved JNull)\<rparr>)
            [] demo_body) =
     calls (handler demo_collaborators [] demo_body) \<and>
   map without_image
     (responses (handler (demo_collaborators\<lparr>selectBestImageWithVision :=
        (\<lambda>imgs n. Resolved JNull)\<rparr>) [] demo_body)) =
     map without_image (responses (handler demo_collaborators [] demo_body))"
proof -
  have s2: "(\<lambda>imgs n. Resolved JNull) (images demo_batch) ''Widget X'' = Resolved JNull"
    by simp
  show ?thesis
    using demo_reaches_selection demo_select
      image_never_influences_text [OF demo_reaches_selection demo_select s2, of "[]"]
    by simp
qed

text \<open>
  Claim C10. For a request that reaches the assembly, the body sent has the image
  selector's result as its \<open>image\<close>, whether or not the synthesized object had an
  \<open>image\<close> of its own; every other property reads as in the synthesized object, and
  the two objects are equal once \<open>image\<close> is removed.
\<close>

theorem image_field_is_selector_result:
  assumes "reaches_selection cs body page cleaned name results batch"
    and "selectBestImageWithVision cs (images batch) name = Resolved bestImage"
    and "Promise_all sched (summaries cs batch) = Resolved vs"
    and "generateObject ProductSchema cs (prompt name (combinedDetails vs)) = Resolved obj"
  shows "\<exists>sent. responses (handler cs sched body) = [Response 200 (JObj sent)] \<and>
           get_prop sent ''image'' = bestImage \<and>
           (\<forall>k. k \<noteq> ''image'' \<longrightarrow> get_prop sent k = get_prop obj k) \<and>
           AList.delete ''image'' sent = AList.delete ''image'' obj"
proof -
  have "responses (handler cs sched body) =
          [Response 200 (JObj (set_prop obj ''image'' bestImage))]"
    by (simp add: handler_synthesis [OF assms(1-3)] assms(4))
  moreover have "get_prop (set_prop obj ''image'' bestImage) ''image'' = bestImage"
    by (simp add: get_prop_set_prop)
  moreover have "\<forall>k. k \<noteq> ''image'' \<longrightarrow>
      get_prop (set_prop obj ''image'' bestImage) k = get_prop obj k"
    by (simp add: get_prop_set_prop)
  moreover have "AList.delete ''image'' (set_prop obj ''image'' bestImage) =
      AList.delete ''image'' obj"
    by (simp add: set_prop_def delete_update_same)
  ultimately show ?thesis by blast
qed

theorem image_field_is_selector_result_witness:
  "reaches_selection demo_collaborators demo_body demo_page ''Widget X details...'' ''Widget X''
     demo_results demo_batch \<and>
   selectBestImageWithVision demo_collaborators (images demo_batch) ''Widget X'' =
     Resolved (JStr ''img2.png'') \<and>
   Promise_all [] (summaries demo_collaborators demo_batch) =
     Resolved [JStr ''Summary of alpha'', JNull, JStr ''Summary of gamma''] \<and>
   generateObject ProductSchema demo_collaborators
     (prompt ''Widget X''
        (combinedDetails [JStr ''Summary of alpha'', JNull, JStr ''Summary of gamma''])) =
     Resolved demo_object \<and>
   get_prop demo_object ''image'' = JStr ''invented.png'' \<and>
   (\<exists>sent. responses (handler demo_collaborators [] demo_body) = [Response 200 (JObj sent)] \<and>
      get_prop sent ''image'' = JStr ''img2.png'' \<and>
      get_prop sent ''name'' = JStr ''Widget X'')"
proof -
  have i: "get_prop demo_object ''image'' = JStr ''invented.png''"
    and n: "get_prop demo_object ''name'' = JStr ''Widget X''"
    by (simp_all add: demo_object_def get_prop_def)
  from image_field_is_selector_result
    [OF demo_reaches_selection demo_select demo_Promise_all demo_generateObject, of "[]"]
  obtain sent where "responses (handler demo_collaborators [] demo_body) =
      [Response 200 (JObj sent)]"
    and "get_prop sent ''image'' = JStr ''img2.png''"
    and "\<forall>k. k \<noteq> ''image'' \<longrightarrow> get_prop sent k = get_prop demo_object k"
    by blast
  then have "\<exists>sent. responses (handler demo_collaborators [] demo_body) =
        [Response 200 (JObj sent)] \<and>
      get_prop sent ''image'' = JStr ''img2.png'' \<and>
      get_prop sent ''name'' = JStr ''Widget X''"
    using n by auto
  then show ?thesis
    using demo_reaches_selection demo_select demo_Promise_all [of "[]"] demo_generateObject i
    by simp
qed

section \<open>Determinism of the assembly\<close>

text \<open>
  Claim C8. The collaborator responses being fixed, the only thing that can differ
  between two invocations is the order in which the concurrent summarization calls
  finish. If an invocation answers with a record, then any other invocation, under any
  other order, makes the same calls and answers with the same record.
\<close>

theorem assembly_independent_of_schedule:
  assumes "Response 200 r \<in> set (responses (handler cs sched1 body))"
  shows "handler cs sched2 body = handler cs sched1 body"
proof -
  from handler_200D [OF assms]
  obtain page cleaned name results batch bestImage vs where
    r: "reaches_selection cs body page cleaned name results batch"
    and s: "selectBestImageWithVision cs (images batch) name = Resolved bestImage"
    and p1: "Promise_all sched1 (summaries cs batch) = Resolved vs"
    by blast
  from p1 have "summaries cs batch = map Resolved vs"
    by (simp add: Promise_all_Resolved_iff)
  then have p2: "Promise_all sched2 (summaries cs batch) = Resolved vs"
    by simp
  show ?thesis
    by (simp add: handler_synthesis [OF r s p1] handler_synthesis [OF r s p2])
qed

theorem assembly_independent_of_schedule_witness:
  "Response 200 (JObj (set_prop demo_object ''image'' (JStr ''img2.png'')))
     \<in> set (responses (handler demo_collaborators [] demo_body)) \<and>
   handler demo_collaborators [2, 0, 1] demo_body = handler demo_collaborators [] demo_body"
proof -
  have a: "Response 200 (JObj (set_prop demo_object ''image'' (JStr ''img2.png'')))
     \<in> set (responses (handler demo_collaborators [] demo_body))"
    by (simp add: demo_handler)
  from a assembly_independent_of_schedule [OF a, of "[2, 0, 1]"] show ?thesis
    by simp
qed

text \<open>
  This is a property of the records only. When two summarizer calls throw, the order in
  which they finish decides which message the failure response carries.
\<close>

lemma failure_details_depend_on_schedule:
  "responses (handler two_summarizers_throw [] demo_body) =
     [failure_response (ErrorObj ''alpha failed'')] \<and>
   responses (handler two_summarizers_throw [2] demo_body) =
     [failure_response (ErrorObj ''gamma failed'')]"
proof -
  have r: "reaches_selection two_summarizers_throw demo_body demo_page ''Widget X details...''
     ''Widget X'' demo_results demo_batch"
    using demo_reaches_selection
    by (simp add: reaches_selection_def reaches_search_def two_summarizers_throw_def)
  have s: "selectBestImageWithVision two_summarizers_throw (images demo_batch) ''Widget X'' =
     Resolved (JStr ''img2.png'')"
    by (simp add: two_summarizers_throw_def demo_collaborators_def)
  have sm: "summaries two_summarizers_throw demo_batch =
     [Rejected (ErrorObj ''alpha failed''), Resolved (JStr ''Summary''),
      Rejected (ErrorObj ''gamma failed'')]"
    by (simp add: summaries_def two_summarizers_throw_def demo_batch_def)
  have p1: "Promise_all [] (summaries two_summarizers_throw demo_batch) =
     Rejected (ErrorObj ''alpha failed'')"
    by (simp add: sm Promise_all_def settle_order_def upt_rec)
  have p2: "Promise_all [2] (summaries two_summarizers_throw demo_batch) =
     Rejected (ErrorObj ''gamma failed'')"
    by (simp add: sm Promise_all_def settle_order_def upt_rec)
  show ?thesis
    by (simp add: handler_summarizer_rejected [OF r s p1] handler_summarizer_rejected [OF r s p2])
qed

section \<open>The shape of the record\<close>

text \<open>
  Claim C9. The body of every successful response is an object whose \<open>specifications\<close>
  property is an array, each entry an object with a \<open>label\<close> and a \<open>value\<close>. An
  object without the property does not pass the schema, so the property is never
  omitted; with no data it is the empty array, as in the sample.
\<close>

theorem specifications_always_label_value_array:
  assumes "Response 200 r \<in> set (responses (handler cs sched body))"
  shows "\<exists>sent. r = JObj sent \<and>
           array_of (has_props [''label'', ''value'']) (get_prop sent ''specifications'')"
proof -
  from handler_200D [OF assms]
  obtain bestImage obj p where
    g: "generateObject ProductSchema cs p = Resolved obj"
    and r: "r = JObj (set_prop obj ''image'' bestImage)"
    by blast
  from g have "ProductSchema obj"
    by (auto simp: generateObject_def split: outcome.splits if_splits)
  then have "array_of (has_props [''label'', ''value'']) (get_prop obj ''specifications'')"
    by (simp add: ProductSchema_def)
  then have "array_of (has_props [''label'', ''value''])
               (get_prop (set_prop obj ''image'' bestImage) ''specifications'')"
    by (simp add: get_prop_set_prop)
  with r show ?thesis by blast
qed

theorem specifications_always_label_value_array_witness:
  "Response 200 (JObj (set_prop demo_object ''image'' (JStr ''img2.png'')))
     \<in> set (responses (handler demo_collaborators [] demo_body)) \<and>
   get_prop demo_object ''specifications'' = JArr [] \<and>
   get_prop (set_prop demo_object ''image'' (JStr ''img2.png'')) ''specifications'' = JArr [] \<and>
   array_of (has_props [''label'', ''value''])
     (get_prop (set_prop demo_object ''image'' (JStr ''img2.png'')) ''specifications'')"
proof -
  have a: "Response 200 (JObj (set_prop demo_object ''image'' (JStr ''img2.png'')))
     \<in> set (responses (handler demo_collaborators [] demo_body))"
    by (simp add: demo_handler)
  have b: "get_prop demo_object ''specifications'' = JArr []"
    by (simp add: demo_object_def get_prop_def)
  from a b specifications_always_label_value_array [OF a] show ?thesis
    by (simp add: get_prop_set_prop)
qed

end
